theory Spec2Isabelle
  imports Complex_Main "HOL-Library.AList"
begin

section \<open>Crop yield prediction service: the request pipeline of \<open>api/app.py\<close>\<close>

text \<open>
  The development embeds the prediction endpoint of \<open>src/summative/api/app.py\<close>:
  \<open>transform_agricultural_input\<close> (text standardisation, categorical encoding, boolean
  mapping, column selection), \<open>calculate_prediction_confidence\<close>, the handler
  \<open>CropYieldPredictor.post\<close> with its two \<open>except\<close> clauses, and the endpoint as it is
  served: the payload validation declared by \<open>expect(agricultural_input_schema,
  validate=True)\<close>, which runs before the handler (\<open>serve\<close>).

  Scope of the embedding.
  \<^item> Text is ASCII. A Python \<open>str\<close> is a \<open>string\<close>; \<open>strip\<close>, \<open>upper\<close> and \<open>title\<close> are
    Python's on strings of ASCII code points (\<open>ascii_text\<close>) and are not meant outside that
    range (Python's upper case of a character above 127 need not be a single 8-bit
    character). The properties of the normalisation itself are stated for ASCII text.
  \<^item> The request body is a JSON object whose values are scalars (string, integer, float,
    boolean). A dictionary is an association list read with \<open>map_of\<close>.
  \<^item> The unpickled model and the four encoders are parameters (\<open>model_package\<close>).
  \<^item> Calls to the encoders and to the model are recorded in a trace, so that "is never
    invoked" is a statement about the run.
  \<^item> The clock (\<open>processing_time_ms\<close>) is left out, and \<open>round(_, 3)\<close> of the reported
    yield is kept as a term, not computed.
  \<^item> The texts of the exceptions that pandas raises (\<open>AttributeError\<close> of the \<open>.str\<close>
    accessor, \<open>KeyError\<close> of a column selection) are the library's and vary with its
    version; no property below depends on them.
\<close>

subsection \<open>Python string operations on ASCII text\<close>

definition ascii_lowercase :: string where
  "ascii_lowercase = ''abcdefghijklmnopqrstuvwxyz''"

definition ascii_uppercase :: string where
  "ascii_uppercase = ''ABCDEFGHIJKLMNOPQRSTUVWXYZ''"

definition islower :: "char \<Rightarrow> bool" where
  "islower c = (c \<in> set ascii_lowercase)"

definition isupper :: "char \<Rightarrow> bool" where
  "isupper c = (c \<in> set ascii_uppercase)"

definition to_upper :: "char \<Rightarrow> char" where
  "to_upper c = (case map_of (zip ascii_lowercase ascii_uppercase) c of
                   Some u \<Rightarrow> u | None \<Rightarrow> c)"

definition to_lower :: "char \<Rightarrow> char" where
  "to_lower c = (case map_of (zip ascii_uppercase ascii_lowercase) c of
                   Some l \<Rightarrow> l | None \<Rightarrow> c)"

text \<open>The characters \<open>str.strip()\<close> removes: tab, LF, VT, FF, CR, FS, GS, RS, US, space.\<close>

definition isspace :: "char \<Rightarrow> bool" where
  "isspace c = (c \<in> set [CHR 0x09, CHR 0x0A, CHR 0x0B, CHR 0x0C, CHR 0x0D,
                           CHR 0x1C, CHR 0x1D, CHR 0x1E, CHR 0x1F, CHR 0x20])"

definition str_strip :: "string \<Rightarrow> string" where
  "str_strip s = rev (dropWhile isspace (rev (dropWhile isspace s)))"

definition str_upper :: "string \<Rightarrow> string" where
  "str_upper s = map to_upper s"


text \<open>
  \<open>str.title()\<close>: a cased character is upper-cased when the character before it is not
  cased and lower-cased when it is; every other character is kept and ends the word.
\<close>

fun title_from :: "bool \<Rightarrow> string \<Rightarrow> string" where
  "title_from previous_is_cased [] = []"
| "title_from previous_is_cased (c # cs) =
     (if islower c then
        (if previous_is_cased then c else to_upper c) # title_from True cs
      else if isupper c then
        (if previous_is_cased then to_lower c else c) # title_from True cs
      else c # title_from False cs)"

definition str_title :: "string \<Rightarrow> string" where
  "str_title s = title_from False s"


text \<open>\<open>repr\<close> of a string that holds no quote, as in \<open>str(KeyError(name))\<close>.\<close>

definition py_repr :: "string \<Rightarrow> string" where
  "py_repr s = [CHR 0x27] @ s @ [CHR 0x27]"

text \<open>\<open>sep.join(xs)\<close>\<close>

fun join :: "string \<Rightarrow> string list \<Rightarrow> string" where
  "join sep [] = []"
| "join sep [x] = x"
| "join sep (x # y # ys) = x @ sep @ join sep (y # ys)"

subsection \<open>Values, exceptions, floats\<close>

datatype jval = JStr string | JInt int | JFloat real | JBool bool

type_synonym py_dict = "(string \<times> jval) list"

text \<open>A one-row data frame restricted to an ordered list of columns.\<close>

type_synonym feature_matrix = "(string \<times> jval) list"

datatype exc_class = ValueError | KeyError | AttributeError | TypeError | RuntimeError

text \<open>An exception: its class and \<open>str(e)\<close>.\<close>

datatype py_exception = Exc exc_class string

text \<open>A Python float: a finite value, an infinity, or NaN (every comparison with NaN is false).\<close>

datatype pyfloat = Fin real | PosInf | NegInf | NaN

fun float_lt :: "pyfloat \<Rightarrow> pyfloat \<Rightarrow> bool" where
  "float_lt (Fin a) (Fin b) = (a < b)"
| "float_lt NaN y = False"
| "float_lt x NaN = False"
| "float_lt x NegInf = False"
| "float_lt NegInf y = True"
| "float_lt PosInf y = False"
| "float_lt x PosInf = True"

fun float_le :: "pyfloat \<Rightarrow> pyfloat \<Rightarrow> bool" where
  "float_le (Fin a) (Fin b) = (a \<le> b)"
| "float_le NaN y = False"
| "float_le x NaN = False"
| "float_le NegInf y = True"
| "float_le x NegInf = False"
| "float_le x PosInf = True"
| "float_le PosInf y = False"

text \<open>
  \<open>max(0, x)\<close>: Python keeps the first argument unless the second compares greater,
  so \<open>max(0, nan)\<close> is \<open>0\<close>.
\<close>

definition max_zero :: "pyfloat \<Rightarrow> pyfloat" where
  "max_zero x = (if float_lt (Fin 0) x then x else Fin 0)"

subsection \<open>\<open>calculate_prediction_confidence\<close>\<close>

definition calculate_prediction_confidence :: "pyfloat \<Rightarrow> string" where
  "calculate_prediction_confidence prediction_value =
     (if float_le (Fin 0) prediction_value \<and> float_le prediction_value (Fin 10) then ''High''
      else if float_lt (Fin 10) prediction_value \<and> float_le prediction_value (Fin 20) then ''Medium''
      else ''Low'')"

subsection \<open>The loaded model package\<close>

text \<open>
  Modelled from the spec: the unpickled encoder objects (\<open>region_encoder\<close>, \<open>soil_encoder\<close>,
  \<open>crop_encoder\<close>, \<open>weather_encoder\<close>) are not in the repository. An encoder is its
  vocabulary \<open>classes\<close> (read by the code as \<open>classes_\<close>); \<open>transform\<close> yields the
  position of a label in it and raises \<open>ValueError\<close> for a label outside it. The text of
  that error is the encoder's own, a function of the label only.
\<close>

record encoder =
  classes :: "string list"
  unseen_text :: "string \<Rightarrow> string"

fun index_of :: "string list \<Rightarrow> string \<Rightarrow> nat option" where
  "index_of [] x = None"
| "index_of (y # ys) x = (if y = x then Some 0 else map_option Suc (index_of ys x))"

definition encoder_transform :: "encoder \<Rightarrow> string \<Rightarrow> py_exception + nat" where
  "encoder_transform enc label =
     (case index_of (classes enc) label of
        None \<Rightarrow> Inl (Exc ValueError (unseen_text enc label))
      | Some i \<Rightarrow> Inr i)"

text \<open>
  \<open>complete_model_data\<close>. \<open>model_predict m\<close> stands for
  \<open>float(trained_ml_model.predict(m)[0])\<close>: the raw scalar, or the exception raised.
\<close>

record model_package =
  model_predict :: "feature_matrix \<Rightarrow> py_exception + pyfloat"
  region_encoder :: encoder
  soil_encoder :: encoder
  crop_encoder :: encoder
  weather_encoder :: encoder
  model_name :: "string option"

text \<open>What a run calls, in order.\<close>

datatype event =
    TransformCall py_dict
  | EncoderLookup string string
  | PredictCall feature_matrix

subsection \<open>\<open>transform_agricultural_input\<close>\<close>

definition text_features_to_standardize :: "string list" where
  "text_features_to_standardize = [''Region'', ''Soil_Type'', ''Crop'', ''Weather_Condition'']"

text \<open>
  The loop \<open>df[f] = df[f].str.strip().str.title()\<close>. A missing column is a
  \<open>KeyError\<close> whose text is the quoted name; the \<open>.str\<close> accessor of a numeric or
  boolean column raises \<open>AttributeError\<close>.
\<close>

fun standardize_text :: "string list \<Rightarrow> py_dict \<Rightarrow> py_exception + py_dict" where
  "standardize_text [] df = Inr df"
| "standardize_text (feature_name # rest) df =
     (case map_of df feature_name of
        None \<Rightarrow> Inl (Exc KeyError (py_repr feature_name))
      | Some (JStr s) \<Rightarrow>
          standardize_text rest (AList.update feature_name (JStr (str_title (str_strip s))) df)
      | Some _ \<Rightarrow> Inl (Exc AttributeError ''Can only use .str accessor with string values!''))"

text \<open>
  The four assignments \<open>df[f] = encoder.transform(df[f])\<close>, in the order given; the
  first exception ends the block. Every call of an encoder is recorded with the label it
  was given. (After \<open>standardize_text\<close> the four columns exist and hold strings, so the
  last case is not reached from \<open>transform_agricultural_input\<close>.)
\<close>

fun encode_columns ::
  "(string \<times> encoder) list \<Rightarrow> py_dict \<Rightarrow> (py_exception + py_dict) \<times> event list" where
  "encode_columns [] df = (Inr df, [])"
| "encode_columns ((feature_name, enc) # rest) df =
     (case map_of df feature_name of
        Some (JStr label) \<Rightarrow>
          (case encoder_transform enc label of
             Inl e \<Rightarrow> (Inl e, [EncoderLookup feature_name label])
           | Inr i \<Rightarrow>
               (case encode_columns rest (AList.update feature_name (JInt (int i)) df) of
                  (r, t) \<Rightarrow> (r, EncoderLookup feature_name label # t)))
      | _ \<Rightarrow> (Inl (Exc KeyError (py_repr feature_name)), []))"

definition categorical_encoders :: "model_package \<Rightarrow> (string \<times> encoder) list" where
  "categorical_encoders pkg =
     [(''Region'', region_encoder pkg), (''Soil_Type'', soil_encoder pkg),
      (''Crop'', crop_encoder pkg), (''Weather_Condition'', weather_encoder pkg)]"

text \<open>\<open>except ValueError as encoding_error: raise ValueError(f"Categorical encoding failed: ...")\<close>\<close>

definition reraise_encoding_error :: "py_exception \<Rightarrow> py_exception" where
  "reraise_encoding_error e =
     (case e of Exc cls msg \<Rightarrow>
        if cls = ValueError then
          Exc ValueError (''Categorical encoding failed: '' @ msg @
                          ''. Please check that all categorical values are supported.'')
        else e)"

definition boolean_feature_mapping :: "(string \<times> int) list" where
  "boolean_feature_mapping = [(''TRUE'', 1), (''FALSE'', 0)]"

text \<open>
  \<open>.astype(str).str.upper().str.strip().map(boolean_feature_mapping)\<close> on one cell;
  \<open>None\<close> is the NaN of an unmapped value. \<open>astype(str)\<close> turns a boolean into
  \<open>True\<close>/\<open>False\<close>; the text of a number is never one of the two keys.
\<close>

fun map_boolean_feature :: "jval \<Rightarrow> int option" where
  "map_boolean_feature (JStr s) = map_of boolean_feature_mapping (str_strip (str_upper s))"
| "map_boolean_feature (JBool b) =
     map_of boolean_feature_mapping (str_strip (str_upper (if b then ''True'' else ''False'')))"
| "map_boolean_feature (JInt n) = None"
| "map_boolean_feature (JFloat x) = None"

text \<open>Both boolean columns are mapped, then \<open>isna().any()\<close> is tested on the two.\<close>

definition map_boolean_columns :: "py_dict \<Rightarrow> py_exception + py_dict" where
  "map_boolean_columns df =
     (case map_of df ''Fertilizer_Used'' of
        None \<Rightarrow> Inl (Exc KeyError (py_repr ''Fertilizer_Used''))
      | Some fertilizer \<Rightarrow>
          (case map_of df ''Irrigation_Used'' of
             None \<Rightarrow> Inl (Exc KeyError (py_repr ''Irrigation_Used''))
           | Some irrigation \<Rightarrow>
               (case (map_boolean_feature fertilizer, map_boolean_feature irrigation) of
                  (Some f, Some i) \<Rightarrow>
                    Inr (AList.update ''Irrigation_Used'' (JInt i)
                          (AList.update ''Fertilizer_Used'' (JInt f) df))
                | _ \<Rightarrow> Inl (Exc ValueError
                          ''Boolean features must be 'TRUE' or 'FALSE' (case insensitive)''))))"

definition required_feature_columns :: "string list" where
  "required_feature_columns =
     [''Region'', ''Soil_Type'', ''Crop'', ''Rainfall_mm'', ''Temperature_Celsius'',
      ''Fertilizer_Used'', ''Irrigation_Used'', ''Weather_Condition'', ''Days_to_Harvest'']"

text \<open>
  \<open>df[required_feature_columns]\<close>: the listed columns, in the listed order. A column
  that is missing raises \<open>KeyError\<close>; pandas' text lists the missing names, and is
  shortened here to the first of them.
\<close>

fun select_columns :: "string list \<Rightarrow> py_dict \<Rightarrow> py_exception + feature_matrix" where
  "select_columns [] df = Inr []"
| "select_columns (c # cs) df =
     (case map_of df c of
        None \<Rightarrow> Inl (Exc KeyError c)
      | Some v \<Rightarrow>
          (case select_columns cs df of
             Inl e \<Rightarrow> Inl e
           | Inr m \<Rightarrow> Inr ((c, v) # m)))"

definition transform_agricultural_input ::
  "model_package \<Rightarrow> py_dict \<Rightarrow> (py_exception + feature_matrix) \<times> event list" where
  "transform_agricultural_input pkg raw_input_data =
     (case standardize_text text_features_to_standardize raw_input_data of
        Inl e \<Rightarrow> (Inl e, [])
      | Inr standardized \<Rightarrow>
          (case encode_columns (categorical_encoders pkg) standardized of
             (Inl e, t) \<Rightarrow> (Inl (reraise_encoding_error e), t)
           | (Inr encoded, t) \<Rightarrow>
               (case map_boolean_columns encoded of
                  Inl e \<Rightarrow> (Inl e, t)
                | Inr processed \<Rightarrow> (select_columns required_feature_columns processed, t))))"

subsection \<open>\<open>CropYieldPredictor.post\<close>\<close>

record error_payload =
  error_message :: string
  error_code :: string
  suggestions :: "string list"

text \<open>\<open>round(x, ndigits)\<close> of a float, kept as a term.\<close>

datatype rounded = Round pyfloat nat

text \<open>The success payload (without \<open>processing_time_ms\<close>).\<close>

record prediction_result =
  predicted_yield_tons_per_hectare :: rounded
  confidence_level :: string
  model_version :: string

datatype body = Failure error_payload | Prediction prediction_result

text \<open>A response: the payload and the HTTP status.\<close>

type_synonym response = "body \<times> nat"

definition required_fields :: "string list" where
  "required_fields =
     [''Region'', ''Soil_Type'', ''Crop'', ''Rainfall_mm'', ''Temperature_Celsius'',
      ''Fertilizer_Used'', ''Irrigation_Used'', ''Weather_Condition'', ''Days_to_Harvest'']"

definition missing_data_response :: response where
  "missing_data_response =
     (Failure \<lparr>error_message = ''No input data provided in request body'',
               error_code = ''MISSING_DATA'',
               suggestions = [''Include all required agricultural parameters in JSON format'',
                              ''Refer to the API documentation for input schema'']\<rparr>, 400)"

definition missing_fields_response :: "string list \<Rightarrow> response" where
  "missing_fields_response missing_fields =
     (Failure \<lparr>error_message = ''Missing required fields: '' @ join '', '' missing_fields,
               error_code = ''MISSING_FIELDS'',
               suggestions = [''Include the following fields: '' @ join '', '' missing_fields,
                              ''Check the API documentation for complete field requirements'']\<rparr>,
      400)"

definition validation_error_response :: "string \<Rightarrow> response" where
  "validation_error_response msg =
     (Failure \<lparr>error_message = ''Input validation failed: '' @ msg,
               error_code = ''VALIDATION_ERROR'',
               suggestions = [''Check that categorical values are supported by the model'',
                              ''Ensure boolean fields use TRUE/FALSE values'',
                              ''Verify numerical ranges are realistic'']\<rparr>, 422)"

definition processing_error_response :: "string \<Rightarrow> response" where
  "processing_error_response msg =
     (Failure \<lparr>error_message = ''Prediction processing failed: '' @ msg,
               error_code = ''PROCESSING_ERROR'',
               suggestions = [''Verify input data format and values'',
                              ''Contact support if the error persists'',
                              ''Check API documentation for troubleshooting'']\<rparr>, 500)"

text \<open>The two \<open>except\<close> clauses: \<open>ValueError\<close> first, then every other \<open>Exception\<close>.\<close>

definition handle_exception :: "py_exception \<Rightarrow> response" where
  "handle_exception e =
     (case e of Exc cls msg \<Rightarrow>
        if cls = ValueError then validation_error_response msg
        else processing_error_response msg)"

definition success_response :: "model_package \<Rightarrow> pyfloat \<Rightarrow> response" where
  "success_response pkg raw_prediction_result =
     (let final_prediction = max_zero raw_prediction_result;
          confidence_assessment = calculate_prediction_confidence final_prediction
      in (Prediction \<lparr>predicted_yield_tons_per_hectare = Round final_prediction 3,
                      confidence_level = confidence_assessment,
                      model_version = (case model_name pkg of
                                         Some n \<Rightarrow> n | None \<Rightarrow> ''AgriTech ML Model v2.0'')\<rparr>,
          200))"

text \<open>
  The handler, as a function of \<open>crop_yield_api.payload\<close>: \<open>None\<close> is the Python value
  \<open>None\<close> (the JSON body \<open>null\<close>), \<open>Some d\<close> a JSON object. \<open>not agricultural_input_data\<close>
  holds for \<open>None\<close> and for the empty object; \<open>field not in agricultural_input_data\<close> is a
  key lookup. What reaches the handler when the endpoint is served is in \<open>serve\<close> below.
\<close>

definition post :: "model_package \<Rightarrow> py_dict option \<Rightarrow> response \<times> event list" where
  "post pkg payload =
     (case payload of
        None \<Rightarrow> (missing_data_response, [])
      | Some agricultural_input_data \<Rightarrow>
          if agricultural_input_data = [] then (missing_data_response, [])
          else
            (let missing_fields =
                   filter (\<lambda>field. map_of agricultural_input_data field = None) required_fields
             in if missing_fields \<noteq> [] then (missing_fields_response missing_fields, [])
                else
                  (case transform_agricultural_input pkg agricultural_input_data of
                     (Inl e, t) \<Rightarrow>
                       (handle_exception e, TransformCall agricultural_input_data # t)
                   | (Inr processed_feature_matrix, t) \<Rightarrow>
                       (case model_predict pkg processed_feature_matrix of
                          Inl e \<Rightarrow>
                            (handle_exception e,
                             TransformCall agricultural_input_data # t @
                               [PredictCall processed_feature_matrix])
                        | Inr raw_prediction_result \<Rightarrow>
                            (success_response pkg raw_prediction_result,
                             TransformCall agricultural_input_data # t @
                               [PredictCall processed_feature_matrix])))))"

subsection \<open>The input schema and the endpoint as served\<close>

text \<open>
  \<open>agricultural_input_schema\<close> (lines 88 to 150): the type of each field with its \<open>enum\<close>,
  \<open>min\<close> and \<open>max\<close>. All nine fields are declared \<open>required=True\<close>.
\<close>

datatype field =
    String_field "string list option"
  | Float_field "real option" "real option"
  | Integer_field "int option" "int option"









subsection \<open>A model package and requests for the examples\<close>

definition label_encoder :: "string list \<Rightarrow> encoder" where
  "label_encoder vocabulary =
     \<lparr>classes = vocabulary,
      unseen_text = (\<lambda>label. ''y contains previously unseen labels: '' @ [CHR 0x27] @ label @ [CHR 0x27])\<rparr>"

definition example_package :: model_package where
  "example_package =
     \<lparr>model_predict = (\<lambda>m. Inr (Fin 4.25)),
      region_encoder = label_encoder [''East'', ''North'', ''South'', ''West''],
      soil_encoder = label_encoder [''Clay'', ''Loam'', ''Sandy'', ''Silt''],
      crop_encoder = label_encoder [''Barley'', ''Rice'', ''Wheat''],
      weather_encoder = label_encoder [''Cloudy'', ''Rainy'', ''Sunny''],
      model_name = None\<rparr>"

definition example_request :: py_dict where
  "example_request =
     [(''Region'', JStr ''North''), (''Soil_Type'', JStr ''Loam''), (''Crop'', JStr ''Wheat''),
      (''Rainfall_mm'', JFloat 450.5), (''Temperature_Celsius'', JFloat 22.5),
      (''Fertilizer_Used'', JStr ''TRUE''), (''Irrigation_Used'', JStr ''FALSE''),
      (''Weather_Condition'', JStr ''Sunny''), (''Days_to_Harvest'', JInt 120)]"

text \<open>The example request with two more keys, which the pipeline does not name.\<close>

definition example_request_with_extras :: py_dict where
  "example_request_with_extras =
     (''Farm_Id'', JInt 17) # example_request @ [(''Notes'', JStr ''dry year'')]"

text \<open>The example package with a model whose \<open>predict\<close> raises the given exception.\<close>

definition raising_package :: "exc_class \<Rightarrow> string \<Rightarrow> model_package" where
  "raising_package cls msg = example_package\<lparr>model_predict := (\<lambda>m. Inl (Exc cls msg))\<rparr>"

text \<open>The example package with a model whose \<open>predict\<close> returns the given scalar.\<close>

definition predicting_package :: "pyfloat \<Rightarrow> model_package" where
  "predicting_package raw = example_package\<lparr>model_predict := (\<lambda>m. Inr raw)\<rparr>"











section \<open>Auxiliary facts\<close>

subsection \<open>Stages read the named columns only\<close>

lemma map_of_update: "map_of (AList.update k v al) k' = (if k' = k then Some v else map_of al k')"
  by (simp add: update_conv')

lemma standardize_text_agree:
  "set fs \<subseteq> S \<Longrightarrow> \<forall>k\<in>S. map_of d1 k = map_of d2 k \<Longrightarrow>
   rel_sum (=) (\<lambda>a b. \<forall>k\<in>S. map_of a k = map_of b k)
     (standardize_text fs d1) (standardize_text fs d2)"
proof (induction fs arbitrary: d1 d2)
  case Nil
  then show ?case by simp
next
  case (Cons f fs)
  from Cons.prems have same: "map_of d1 f = map_of d2 f" and sub: "set fs \<subseteq> S" by auto
  show ?case
  proof (cases "map_of d2 f")
    case None
    with same show ?thesis by simp
  next
    case (Some v)
    show ?thesis
    proof (cases v)
      case (JStr s)
      have "\<forall>k\<in>S. map_of (AList.update f (JStr (str_title (str_strip s))) d1) k =
                   map_of (AList.update f (JStr (str_title (str_strip s))) d2) k"
        using Cons.prems(2) by (simp add: map_of_update)
      from Cons.IH [OF sub this] show ?thesis using same Some JStr by simp
    qed (use same Some in simp_all)
  qed
qed

lemma encode_columns_agree:
  "fst ` set es \<subseteq> S \<Longrightarrow> \<forall>k\<in>S. map_of d1 k = map_of d2 k \<Longrightarrow>
   rel_sum (=) (\<lambda>a b. \<forall>k\<in>S. map_of a k = map_of b k)
     (fst (encode_columns es d1)) (fst (encode_columns es d2)) \<and>
   snd (encode_columns es d1) = snd (encode_columns es d2)"
proof (induction es arbitrary: d1 d2)
  case Nil
  then show ?case by simp
next
  case (Cons e es)
  obtain f enc where e: "e = (f, enc)" by (cases e)
  from Cons.prems e have same: "map_of d1 f = map_of d2 f" and sub: "fst ` set es \<subseteq> S" by auto
  show ?case
  proof (cases "map_of d2 f")
    case None
    with same e show ?thesis by simp
  next
    case (Some v)
    show ?thesis
    proof (cases v)
      case (JStr label)
      show ?thesis
      proof (cases "encoder_transform enc label")
        case (Inl err)
        with same Some JStr e show ?thesis by simp
      next
        case (Inr i)
        have "\<forall>k\<in>S. map_of (AList.update f (JInt (int i)) d1) k =
                     map_of (AList.update f (JInt (int i)) d2) k"
          using Cons.prems(2) by (simp add: map_of_update)
        from Cons.IH [OF sub this] show ?thesis using same Some JStr e Inr
          by (simp add: split_beta)
      qed
    qed (use same Some e in simp_all)
  qed
qed

lemma map_boolean_columns_agree:
  "''Fertilizer_Used'' \<in> S \<Longrightarrow> ''Irrigation_Used'' \<in> S \<Longrightarrow>
   \<forall>k\<in>S. map_of d1 k = map_of d2 k \<Longrightarrow>
   rel_sum (=) (\<lambda>a b. \<forall>k\<in>S. map_of a k = map_of b k)
     (map_boolean_columns d1) (map_boolean_columns d2)"
  by (auto simp add: map_boolean_columns_def map_of_update split: option.splits)

lemma select_columns_agree:
  "\<forall>k\<in>set cs. map_of d1 k = map_of d2 k \<Longrightarrow> select_columns cs d1 = select_columns cs d2"
  by (induction cs) (auto split: option.splits sum.splits)

subsection \<open>Columns a stage does not touch, and the selected columns\<close>

lemma standardize_text_other:
  "standardize_text fs df = Inr df' \<Longrightarrow> k \<notin> set fs \<Longrightarrow> map_of df' k = map_of df k"
proof (induction fs arbitrary: df)
  case Nil
  then show ?case by simp
next
  case (Cons f fs)
  then show ?case
    by (auto simp add: map_of_update split: option.splits jval.splits)
qed

lemma encode_columns_other:
  "encode_columns es df = (Inr df', t) \<Longrightarrow> k \<notin> fst ` set es \<Longrightarrow> map_of df' k = map_of df k"
proof (induction es arbitrary: df t)
  case Nil
  then show ?case by simp
next
  case (Cons e es)
  obtain f enc where e: "e = (f, enc)" by (cases e)
  from Cons.prems show ?case unfolding e
    by (auto simp add: map_of_update split: option.splits jval.splits sum.splits prod.splits
             dest!: Cons.IH)
qed

lemma map_boolean_columns_other:
  "map_boolean_columns df = Inr df' \<Longrightarrow> k \<noteq> ''Fertilizer_Used'' \<Longrightarrow> k \<noteq> ''Irrigation_Used'' \<Longrightarrow>
     map_of df' k = map_of df k"
  by (auto simp add: map_boolean_columns_def map_of_update split: option.splits)

lemma select_columns_Inr:
  "select_columns cs df = Inr m \<Longrightarrow> map fst m = cs \<and> (\<forall>c \<in> set cs. map_of m c = map_of df c)"
proof (induction cs arbitrary: m)
  case Nil
  then show ?case by simp
next
  case (Cons c cs)
  then show ?case
    by (auto split: option.splits sum.splits)
qed

lemma select_columns_present:
  "(\<forall>c \<in> set cs. map_of df c \<noteq> None) \<Longrightarrow> \<exists>m. select_columns cs df = Inr m"
  by (induction cs) (auto split: option.splits sum.splits)

lemma select_columns_Inr_present:
  "select_columns cs df = Inr m \<Longrightarrow> c \<in> set cs \<Longrightarrow> map_of df c \<noteq> None"
  by (induction cs arbitrary: m) (auto split: option.splits sum.splits)

subsection \<open>The pipeline as a whole\<close>

lemma transform_Inr_iff:
  "transform_agricultural_input pkg d = (Inr m, t) \<longleftrightarrow>
   (\<exists>df1 df2 df3.
      standardize_text text_features_to_standardize d = Inr df1 \<and>
      encode_columns (categorical_encoders pkg) df1 = (Inr df2, t) \<and>
      map_boolean_columns df2 = Inr df3 \<and>
      select_columns required_feature_columns df3 = Inr m)"
  by (auto simp add: transform_agricultural_input_def split: sum.splits prod.splits)

lemma transform_agree:
  assumes "\<forall>k\<in>set required_feature_columns. map_of d1 k = map_of d2 k"
  shows "transform_agricultural_input pkg d1 = transform_agricultural_input pkg d2"
proof -
  let ?S = "set required_feature_columns"
  let ?R = "rel_sum (=) (\<lambda>a b. \<forall>k\<in>?S. map_of a k = map_of b k)"
  have s1: "?R (standardize_text text_features_to_standardize d1)
               (standardize_text text_features_to_standardize d2)"
    by (rule standardize_text_agree [OF _ assms])
       (simp add: text_features_to_standardize_def required_feature_columns_def)
  show ?thesis
  proof (cases "standardize_text text_features_to_standardize d1")
    case (Inl e)
    with s1 show ?thesis
      by (auto simp add: transform_agricultural_input_def elim: rel_sum.cases)
  next
    case (Inr a1)
    with s1 obtain a2 where a2: "standardize_text text_features_to_standardize d2 = Inr a2"
      and ag1: "\<forall>k\<in>?S. map_of a1 k = map_of a2 k"
      by (auto elim: rel_sum.cases)
    have s2: "?R (fst (encode_columns (categorical_encoders pkg) a1))
                 (fst (encode_columns (categorical_encoders pkg) a2)) \<and>
              snd (encode_columns (categorical_encoders pkg) a1) =
              snd (encode_columns (categorical_encoders pkg) a2)"
      by (rule encode_columns_agree [OF _ ag1])
         (simp add: categorical_encoders_def required_feature_columns_def)
    obtain r1 t where e1: "encode_columns (categorical_encoders pkg) a1 = (r1, t)"
      by (cases "encode_columns (categorical_encoders pkg) a1")
    with s2 obtain r2 where e2: "encode_columns (categorical_encoders pkg) a2 = (r2, t)"
      and rr: "?R r1 r2"
      by (cases "encode_columns (categorical_encoders pkg) a2") auto
    show ?thesis
    proof (cases r1)
      case (Inl e)
      with rr have "r2 = Inl e" by (auto elim: rel_sum.cases)
      with Inl Inr a2 e1 e2 show ?thesis by (simp add: transform_agricultural_input_def)
    next
      case b1: (Inr b1)
      with rr obtain b2 where b2: "r2 = Inr b2" and ag2: "\<forall>k\<in>?S. map_of b1 k = map_of b2 k"
        by (auto elim: rel_sum.cases)
      have s3: "?R (map_boolean_columns b1) (map_boolean_columns b2)"
        by (rule map_boolean_columns_agree [OF _ _ ag2])
           (simp_all add: required_feature_columns_def)
      show ?thesis
      proof (cases "map_boolean_columns b1")
        case (Inl e)
        with s3 have "map_boolean_columns b2 = Inl e" by (auto elim: rel_sum.cases)
        with Inl Inr a2 e1 e2 b1 b2 show ?thesis by (simp add: transform_agricultural_input_def)
      next
        case c1: (Inr c1)
        with s3 obtain c2 where c2: "map_boolean_columns b2 = Inr c2"
          and ag3: "\<forall>k\<in>?S. map_of c1 k = map_of c2 k"
          by (auto elim: rel_sum.cases)
        have "select_columns required_feature_columns c1 = select_columns required_feature_columns c2"
          by (rule select_columns_agree [OF ag3])
        with c1 c2 Inr a2 e1 e2 b1 b2 show ?thesis by (simp add: transform_agricultural_input_def)
      qed
    qed
  qed
qed

lemma missing_fields_agree:
  "\<forall>k\<in>set required_feature_columns. map_of d1 k = map_of d2 k \<Longrightarrow>
   filter (\<lambda>field. map_of d1 field = None) required_fields =
   filter (\<lambda>field. map_of d2 field = None) required_fields"
  by (rule filter_cong) (auto simp add: required_fields_def required_feature_columns_def)

subsection \<open>The example request, evaluated\<close>

lemma example_transform:
  "transform_agricultural_input example_package example_request =
     (Inr [(''Region'', JInt 1), (''Soil_Type'', JInt 1), (''Crop'', JInt 2),
           (''Rainfall_mm'', JFloat 450.5), (''Temperature_Celsius'', JFloat 22.5),
           (''Fertilizer_Used'', JInt 1), (''Irrigation_Used'', JInt 0),
           (''Weather_Condition'', JInt 2), (''Days_to_Harvest'', JInt 120)],
      [EncoderLookup ''Region'' ''North'', EncoderLookup ''Soil_Type'' ''Loam'',
       EncoderLookup ''Crop'' ''Wheat'', EncoderLookup ''Weather_Condition'' ''Sunny''])"
  by (simp add: transform_agricultural_input_def example_request_def example_package_def
        text_features_to_standardize_def categorical_encoders_def label_encoder_def
        encoder_transform_def map_boolean_columns_def boolean_feature_mapping_def
        required_feature_columns_def str_title_def str_strip_def str_upper_def
        islower_def isupper_def isspace_def to_upper_def to_lower_def
        ascii_lowercase_def ascii_uppercase_def)

subsection \<open>The numeric fields pass through\<close>

lemma transform_numeric_free:
  assumes ok: "transform_agricultural_input pkg d = (Inr m, t)"
    and same: "\<forall>k\<in>{''Region'', ''Soil_Type'', ''Crop'', ''Weather_Condition'',
                     ''Fertilizer_Used'', ''Irrigation_Used''}. map_of d k = map_of d' k"
    and num: "map_of d' ''Rainfall_mm'' = Some x" "map_of d' ''Temperature_Celsius'' = Some y"
      "map_of d' ''Days_to_Harvest'' = Some z"
  shows "\<exists>m'. transform_agricultural_input pkg d' = (Inr m', t) \<and>
              map_of m' ''Rainfall_mm'' = Some x \<and>
              map_of m' ''Temperature_Celsius'' = Some y \<and>
              map_of m' ''Days_to_Harvest'' = Some z \<and>
              (\<forall>k\<in>{''Region'', ''Soil_Type'', ''Crop'', ''Weather_Condition'',
                     ''Fertilizer_Used'', ''Irrigation_Used''}. map_of m' k = map_of m k)"
proof -
  let ?S = "{''Region'', ''Soil_Type'', ''Crop'', ''Weather_Condition'',
             ''Fertilizer_Used'', ''Irrigation_Used''}"
  let ?R = "rel_sum (=) (\<lambda>a b. \<forall>k\<in>?S. map_of a k = map_of b k)"
  from ok obtain df1 df2 df3 where
    s1: "standardize_text text_features_to_standardize d = Inr df1" and
    s2: "encode_columns (categorical_encoders pkg) df1 = (Inr df2, t)" and
    s3: "map_boolean_columns df2 = Inr df3" and
    s4: "select_columns required_feature_columns df3 = Inr m"
    unfolding transform_Inr_iff by blast
  have "?R (standardize_text text_features_to_standardize d)
           (standardize_text text_features_to_standardize d')"
    by (rule standardize_text_agree [OF _ same]) (simp add: text_features_to_standardize_def)
  with s1 obtain df1' where
    s1': "standardize_text text_features_to_standardize d' = Inr df1'" and
    a1: "\<forall>k\<in>?S. map_of df1 k = map_of df1' k"
    by (auto elim: rel_sum.cases)
  have "?R (fst (encode_columns (categorical_encoders pkg) df1))
           (fst (encode_columns (categorical_encoders pkg) df1')) \<and>
        snd (encode_columns (categorical_encoders pkg) df1) =
        snd (encode_columns (categorical_encoders pkg) df1')"
    by (rule encode_columns_agree [OF _ a1]) (simp add: categorical_encoders_def)
  with s2 obtain df2' where
    s2': "encode_columns (categorical_encoders pkg) df1' = (Inr df2', t)" and
    a2: "\<forall>k\<in>?S. map_of df2 k = map_of df2' k"
    by (cases "encode_columns (categorical_encoders pkg) df1'") (auto elim: rel_sum.cases)
  have "?R (map_boolean_columns df2) (map_boolean_columns df2')"
    by (rule map_boolean_columns_agree [OF _ _ a2]) simp_all
  with s3 obtain df3' where
    s3': "map_boolean_columns df2' = Inr df3'" and
    a3: "\<forall>k\<in>?S. map_of df3 k = map_of df3' k"
    by (auto elim: rel_sum.cases)
  have keep: "map_of df3' k = map_of d' k"
    if "k \<in> {''Rainfall_mm'', ''Temperature_Celsius'', ''Days_to_Harvest''}" for k
  proof -
    have "map_of df3' k = map_of df2' k"
      using that by (intro map_boolean_columns_other [OF s3']) auto
    also have "\<dots> = map_of df1' k"
      using that by (intro encode_columns_other [OF s2']) (auto simp add: categorical_encoders_def)
    also have "\<dots> = map_of d' k"
      using that by (intro standardize_text_other [OF s1']) (auto simp add: text_features_to_standardize_def)
    finally show ?thesis .
  qed
  have six: "map_of df3 k \<noteq> None" if "k \<in> ?S" for k
    using that by (intro select_columns_Inr_present [OF s4]) (auto simp add: required_feature_columns_def)
  have "\<forall>c\<in>set required_feature_columns. map_of df3' c \<noteq> None"
    using six a3 keep num by (auto simp add: required_feature_columns_def)
  then obtain m' where s4': "select_columns required_feature_columns df3' = Inr m'"
    using select_columns_present by blast
  have vals': "\<forall>c\<in>set required_feature_columns. map_of m' c = map_of df3' c"
    and vals: "\<forall>c\<in>set required_feature_columns. map_of m c = map_of df3 c"
    using select_columns_Inr [OF s4'] select_columns_Inr [OF s4] by simp_all
  have t': "transform_agricultural_input pkg d' = (Inr m', t)"
    unfolding transform_Inr_iff using s1' s2' s3' s4' by blast
  have n: "map_of m' ''Rainfall_mm'' = Some x" "map_of m' ''Temperature_Celsius'' = Some y"
      "map_of m' ''Days_to_Harvest'' = Some z"
    using vals' keep num by (simp_all add: required_feature_columns_def)
  have "\<forall>k\<in>?S. map_of m' k = map_of m k"
    using vals vals' a3 by (simp add: required_feature_columns_def)
  with t' n show ?thesis by blast
qed

lemma transform_numeric_unchanged:
  assumes ok: "transform_agricultural_input pkg d = (Inr m, t)"
    and k: "k \<in> {''Rainfall_mm'', ''Temperature_Celsius'', ''Days_to_Harvest''}"
  shows "map_of m k = map_of d k"
proof -
  from ok obtain df1 df2 df3 where
    s1: "standardize_text text_features_to_standardize d = Inr df1" and
    s2: "encode_columns (categorical_encoders pkg) df1 = (Inr df2, t)" and
    s3: "map_boolean_columns df2 = Inr df3" and
    s4: "select_columns required_feature_columns df3 = Inr m"
    unfolding transform_Inr_iff by blast
  have "map_of m k = map_of df3 k"
    using select_columns_Inr [OF s4] k by (auto simp add: required_feature_columns_def)
  also have "\<dots> = map_of df2 k"
    using k by (intro map_boolean_columns_other [OF s3]) auto
  also have "\<dots> = map_of df1 k"
    using k by (intro encode_columns_other [OF s2]) (auto simp add: categorical_encoders_def)
  also have "\<dots> = map_of d k"
    using k by (intro standardize_text_other [OF s1]) (auto simp add: text_features_to_standardize_def)
  finally show ?thesis .
qed

subsection \<open>The handler on a complete request\<close>

lemma standardize_text_Inr_present:
  "standardize_text fs df = Inr df' \<Longrightarrow> f \<in> set fs \<Longrightarrow> map_of df f \<noteq> None"
proof (induction fs arbitrary: df)
  case Nil
  then show ?case by simp
next
  case (Cons g fs)
  show ?case
  proof (cases "f = g")
    case True
    with Cons.prems show ?thesis by (auto split: option.splits)
  next
    case False
    with Cons.prems obtain s where
      "standardize_text fs (AList.update g (JStr (str_title (str_strip s))) df) = Inr df'"
      and "f \<in> set fs"
      by (auto split: option.splits jval.splits)
    from Cons.IH [OF this] False show ?thesis by (simp add: map_of_update)
  qed
qed

lemma map_boolean_columns_Inr_present:
  "map_boolean_columns df = Inr df' \<Longrightarrow>
   map_of df ''Fertilizer_Used'' \<noteq> None \<and> map_of df ''Irrigation_Used'' \<noteq> None"
  by (auto simp add: map_boolean_columns_def split: option.splits)

lemma transform_Inr_present:
  assumes ok: "transform_agricultural_input pkg d = (Inr m, t)" and f: "f \<in> set required_fields"
  shows "map_of d f \<noteq> None"
proof -
  from ok obtain df1 df2 df3 where
    s1: "standardize_text text_features_to_standardize d = Inr df1" and
    s2: "encode_columns (categorical_encoders pkg) df1 = (Inr df2, t)" and
    s3: "map_boolean_columns df2 = Inr df3" and
    s4: "select_columns required_feature_columns df3 = Inr m"
    unfolding transform_Inr_iff by blast
  have categorical: "map_of d g \<noteq> None" if "g \<in> set text_features_to_standardize" for g
    using that by (rule standardize_text_Inr_present [OF s1])
  have flag: "map_of d g \<noteq> None" if g: "g = ''Fertilizer_Used'' \<or> g = ''Irrigation_Used''" for g
  proof -
    have "map_of df2 g \<noteq> None"
      using map_boolean_columns_Inr_present [OF s3] g by auto
    moreover have "map_of df2 g = map_of df1 g"
      using g by (intro encode_columns_other [OF s2]) (auto simp add: categorical_encoders_def)
    moreover have "map_of df1 g = map_of d g"
      using g
      by (intro standardize_text_other [OF s1]) (auto simp add: text_features_to_standardize_def)
    ultimately show ?thesis by simp
  qed
  have numeric: "map_of d g \<noteq> None"
    if g: "g \<in> {''Rainfall_mm'', ''Temperature_Celsius'', ''Days_to_Harvest''}" for g
  proof -
    have "map_of m g = map_of d g"
      by (rule transform_numeric_unchanged [OF ok g])
    moreover have "map_of m g = map_of df3 g"
      using select_columns_Inr [OF s4] g by (auto simp add: required_feature_columns_def)
    moreover have "map_of df3 g \<noteq> None"
      using g
      by (intro select_columns_Inr_present [OF s4]) (auto simp add: required_feature_columns_def)
    ultimately show ?thesis by simp
  qed
  from f have "f = ''Region'' \<or> f = ''Soil_Type'' \<or> f = ''Crop'' \<or> f = ''Rainfall_mm'' \<or>
      f = ''Temperature_Celsius'' \<or> f = ''Fertilizer_Used'' \<or> f = ''Irrigation_Used'' \<or>
      f = ''Weather_Condition'' \<or> f = ''Days_to_Harvest''"
    by (simp add: required_fields_def)
  then show ?thesis
  proof (elim disjE)
    assume "f = ''Region''"
    then show ?thesis using categorical [of f] by (simp add: text_features_to_standardize_def)
  next
    assume "f = ''Soil_Type''"
    then show ?thesis using categorical [of f] by (simp add: text_features_to_standardize_def)
  next
    assume "f = ''Crop''"
    then show ?thesis using categorical [of f] by (simp add: text_features_to_standardize_def)
  next
    assume "f = ''Weather_Condition''"
    then show ?thesis using categorical [of f] by (simp add: text_features_to_standardize_def)
  next
    assume "f = ''Fertilizer_Used''"
    then show ?thesis using flag [of f] by simp
  next
    assume "f = ''Irrigation_Used''"
    then show ?thesis using flag [of f] by simp
  next
    assume "f = ''Rainfall_mm''"
    then show ?thesis using numeric [of f] by simp
  next
    assume "f = ''Temperature_Celsius''"
    then show ?thesis using numeric [of f] by simp
  next
    assume "f = ''Days_to_Harvest''"
    then show ?thesis using numeric [of f] by simp
  qed
qed

lemma transform_ignores_model:
  "transform_agricultural_input (pkg\<lparr>model_predict := p\<rparr>) = transform_agricultural_input pkg"
proof -
  have "categorical_encoders (pkg\<lparr>model_predict := p\<rparr>) = categorical_encoders pkg"
    by (simp add: categorical_encoders_def)
  then show ?thesis
    by (intro ext) (simp only: transform_agricultural_input_def)
qed

lemma post_complete:
  assumes "d \<noteq> []" "\<forall>f\<in>set required_fields. map_of d f \<noteq> None"
  shows "post pkg (Some d) =
    (case transform_agricultural_input pkg d of
       (Inl e, t) \<Rightarrow> (handle_exception e, TransformCall d # t)
     | (Inr m, t) \<Rightarrow>
         (case model_predict pkg m of
            Inl e \<Rightarrow> (handle_exception e, TransformCall d # t @ [PredictCall m])
          | Inr raw \<Rightarrow> (success_response pkg raw, TransformCall d # t @ [PredictCall m])))"
proof -
  have "filter (\<lambda>field. map_of d field = None) required_fields = []"
    using assms(2) by (simp add: filter_empty_conv)
  with assms(1) show ?thesis by (simp add: post_def Let_def)
qed

lemma post_reaches_predictor:
  assumes ok: "transform_agricultural_input pkg d = (Inr m, t)"
  shows "post pkg (Some d) =
    (case model_predict pkg m of
       Inl e \<Rightarrow> (handle_exception e, TransformCall d # t @ [PredictCall m])
     | Inr raw \<Rightarrow> (success_response pkg raw, TransformCall d # t @ [PredictCall m]))"
proof -
  have all: "\<forall>f\<in>set required_fields. map_of d f \<noteq> None"
    using transform_Inr_present [OF ok] by blast
  then have "map_of d ''Region'' \<noteq> None" by (simp add: required_fields_def)
  then have "d \<noteq> []" by auto
  from post_complete [OF this all] ok show ?thesis by simp
qed

subsection \<open>The example request with a model that raises\<close>

lemma raising_package_transform:
  "transform_agricultural_input (raising_package cls msg) example_request =
     (Inr [(''Region'', JInt 1), (''Soil_Type'', JInt 1), (''Crop'', JInt 2),
           (''Rainfall_mm'', JFloat 450.5), (''Temperature_Celsius'', JFloat 22.5),
           (''Fertilizer_Used'', JInt 1), (''Irrigation_Used'', JInt 0),
           (''Weather_Condition'', JInt 2), (''Days_to_Harvest'', JInt 120)],
      [EncoderLookup ''Region'' ''North'', EncoderLookup ''Soil_Type'' ''Loam'',
       EncoderLookup ''Crop'' ''Wheat'', EncoderLookup ''Weather_Condition'' ''Sunny''])"
  by (simp only: raising_package_def transform_ignores_model example_transform)

lemma raising_package_predict:
  "model_predict (raising_package cls msg) m = Inl (Exc cls msg)"
  by (simp add: raising_package_def)

subsection \<open>Case, whitespace and vocabulary lookup\<close>












subsection \<open>Requests whose categorical values are strings\<close>








subsection \<open>Definitions to unfold when an example is evaluated\<close>




subsection \<open>Requests whose categorical values are in the vocabulary\<close>


subsection \<open>The boolean mapping on strings\<close>


subsection \<open>Title case\<close>






subsection \<open>The payload validation\<close>







subsection \<open>The example request with a model that returns a given scalar\<close>

lemma predicting_package_transform:
  "transform_agricultural_input (predicting_package raw) example_request =
     (Inr [(''Region'', JInt 1), (''Soil_Type'', JInt 1), (''Crop'', JInt 2),
           (''Rainfall_mm'', JFloat 450.5), (''Temperature_Celsius'', JFloat 22.5),
           (''Fertilizer_Used'', JInt 1), (''Irrigation_Used'', JInt 0),
           (''Weather_Condition'', JInt 2), (''Days_to_Harvest'', JInt 120)],
      [EncoderLookup ''Region'' ''North'', EncoderLookup ''Soil_Type'' ''Loam'',
       EncoderLookup ''Crop'' ''Wheat'', EncoderLookup ''Weather_Condition'' ''Sunny''])"
  by (simp only: predicting_package_def transform_ignores_model example_transform)

lemma predicting_package_predict:
  "model_predict (predicting_package raw) m = Inr raw"
  by (simp add: predicting_package_def)

subsection \<open>Normal forms of the text standardisation\<close>







subsection \<open>The lookups of a request whose categorical values are strings\<close>


section \<open>Properties\<close>

subsection \<open>The confidence classifier\<close>

text \<open>
  C9. Below zero the classifier itself falls through to \<open>Low\<close>: for every value strictly
  less than 0 (a negative finite float or minus infinity) \<open>calculate_prediction_confidence\<close>
  returns \<open>Low\<close>, not \<open>High\<close>. The handler's label for a negative raw prediction is
  \<open>High\<close> only because it clamps with \<open>max(0, raw)\<close> first: the clamped value is 0 and the
  classifier maps 0 to \<open>High\<close>.
\<close>

theorem classifier_negative_is_low:
  "float_lt x (Fin 0) \<Longrightarrow>
     calculate_prediction_confidence x = ''Low'' \<and>
     calculate_prediction_confidence x \<noteq> ''High'' \<and>
     max_zero x = Fin 0 \<and>
     calculate_prediction_confidence (max_zero x) = ''High''"
  by (cases x) (simp_all add: calculate_prediction_confidence_def max_zero_def)

theorem classifier_negative_is_low_witness:
  "float_lt (Fin (-3)) (Fin 0) \<and>
   calculate_prediction_confidence (Fin (-3)) = ''Low'' \<and>
   calculate_prediction_confidence (max_zero (Fin (-3))) = ''High''"
  using classifier_negative_is_low [of "Fin (-3)"]
  by (simp add: calculate_prediction_confidence_def max_zero_def)

text \<open>
  C4. The confidence label of a successful response is a function of the clamped
  prediction \<open>v = max(0, raw)\<close> of the raw scalar that the predictor returned. For every
  request that reaches the predictor and every raw scalar it returns, the response is a
  success whose label is the classifier's value at \<open>v\<close>, and \<open>v\<close> and the label are given
  by \<open>raw\<close>: for a finite \<open>raw\<close>, \<open>v\<close> is the larger of 0 and \<open>raw\<close>, and the label is
  \<open>High\<close> for \<open>0 \<le> v \<le> 10\<close>, \<open>Medium\<close> for \<open>10 < v \<le> 20\<close> and \<open>Low\<close> for \<open>v > 20\<close>; a
  negative \<open>raw\<close> (minus infinity included) gives \<open>v = 0\<close> and \<open>High\<close>; plus infinity is kept
  and is \<open>Low\<close>; NaN gives \<open>v = 0\<close> and \<open>High\<close>.
\<close>

theorem confidence_label_of_raw_prediction:
  assumes "transform_agricultural_input pkg d = (Inr m, t)"
    and "model_predict pkg m = Inr raw"
  shows "\<exists>res. post pkg (Some d) =
                 ((Prediction res, 200), TransformCall d # t @ [PredictCall m]) \<and>
               predicted_yield_tons_per_hectare res = Round (max_zero raw) 3 \<and>
               confidence_level res = calculate_prediction_confidence (max_zero raw) \<and>
               (case raw of
                  Fin r \<Rightarrow>
                    max_zero raw = Fin (max 0 r) \<and>
                    (0 \<le> max 0 r \<and> max 0 r \<le> 10 \<longrightarrow> confidence_level res = ''High'') \<and>
                    (10 < max 0 r \<and> max 0 r \<le> 20 \<longrightarrow> confidence_level res = ''Medium'') \<and>
                    (20 < max 0 r \<longrightarrow> confidence_level res = ''Low'') \<and>
                    (r < 0 \<longrightarrow> max_zero raw = Fin 0 \<and> confidence_level res = ''High'')
                | PosInf \<Rightarrow> max_zero raw = PosInf \<and> confidence_level res = ''Low''
                | NegInf \<Rightarrow> max_zero raw = Fin 0 \<and> confidence_level res = ''High''
                | NaN \<Rightarrow> max_zero raw = Fin 0 \<and> confidence_level res = ''High'')"
proof -
  have p: "post pkg (Some d) =
             (success_response pkg raw, TransformCall d # t @ [PredictCall m])"
    using post_reaches_predictor [OF assms(1)] assms(2) by simp
  show ?thesis
    unfolding p
    by (cases raw)
       (auto simp add: success_response_def calculate_prediction_confidence_def max_zero_def
          Let_def)
qed

theorem confidence_label_of_raw_prediction_witness:
  "(\<exists>res. fst (post (predicting_package (Fin 15)) (Some example_request)) = (Prediction res, 200) \<and>
          predicted_yield_tons_per_hectare res = Round (Fin 15) 3 \<and>
          confidence_level res = ''Medium'') \<and>
   (\<exists>res. fst (post (predicting_package (Fin (- 3))) (Some example_request)) = (Prediction res, 200) \<and>
          predicted_yield_tons_per_hectare res = Round (Fin 0) 3 \<and>
          confidence_level res = ''High'') \<and>
   (\<exists>res. fst (post (predicting_package (Fin 0)) (Some example_request)) = (Prediction res, 200) \<and>
          confidence_level res = ''High'') \<and>
   (\<exists>res. fst (post (predicting_package (Fin 10)) (Some example_request)) = (Prediction res, 200) \<and>
          confidence_level res = ''High'') \<and>
   (\<exists>res. fst (post (predicting_package (Fin 10.0001)) (Some example_request)) = (Prediction res, 200) \<and>
          confidence_level res = ''Medium'') \<and>
   (\<exists>res. fst (post (predicting_package (Fin 20)) (Some example_request)) = (Prediction res, 200) \<and>
          confidence_level res = ''Medium'') \<and>
   (\<exists>res. fst (post (predicting_package (Fin 20.0001)) (Some example_request)) = (Prediction res, 200) \<and>
          predicted_yield_tons_per_hectare res = Round (Fin 20.0001) 3 \<and>
          confidence_level res = ''Low'')"
proof -
  note at = confidence_label_of_raw_prediction
              [OF predicting_package_transform predicting_package_predict]
  from at [of "Fin 15"]
  have a: "\<exists>res. fst (post (predicting_package (Fin 15)) (Some example_request)) = (Prediction res, 200) \<and>
          predicted_yield_tons_per_hectare res = Round (Fin 15) 3 \<and>
          confidence_level res = ''Medium''"
    by auto
  from at [of "Fin (- 3)"]
  have b: "\<exists>res. fst (post (predicting_package (Fin (- 3))) (Some example_request)) = (Prediction res, 200) \<and>
          predicted_yield_tons_per_hectare res = Round (Fin 0) 3 \<and>
          confidence_level res = ''High''"
    by auto
  from at [of "Fin 0"]
  have c: "\<exists>res. fst (post (predicting_package (Fin 0)) (Some example_request)) = (Prediction res, 200) \<and>
          confidence_level res = ''High''"
    by auto
  from at [of "Fin 10"]
  have d: "\<exists>res. fst (post (predicting_package (Fin 10)) (Some example_request)) = (Prediction res, 200) \<and>
          confidence_level res = ''High''"
    by auto
  from at [of "Fin 10.0001"]
  have e: "\<exists>res. fst (post (predicting_package (Fin 10.0001)) (Some example_request)) = (Prediction res, 200) \<and>
          confidence_level res = ''Medium''"
    by auto
  from at [of "Fin 20"]
  have f: "\<exists>res. fst (post (predicting_package (Fin 20)) (Some example_request)) = (Prediction res, 200) \<and>
          confidence_level res = ''Medium''"
    by auto
  from at [of "Fin 20.0001"]
  have g: "\<exists>res. fst (post (predicting_package (Fin 20.0001)) (Some example_request)) = (Prediction res, 200) \<and>
          predicted_yield_tons_per_hectare res = Round (Fin 20.0001) 3 \<and>
          confidence_level res = ''Low''"
    by auto
  from a b c d e f g show ?thesis by (intro conjI)
qed

subsection \<open>Inputs the feature matrix depends on\<close>

text \<open>
  C10. The outcome depends on the nine named fields only. Two request mappings that agree
  on Region, Soil_Type, Crop, Rainfall_mm, Temperature_Celsius, Fertilizer_Used,
  Irrigation_Used, Weather_Condition and Days_to_Harvest give the same result of
  \<open>transform_agricultural_input\<close> (the same feature matrix or the same exception, after the
  same encoder calls), and, when both bodies are non-empty, the same response of the
  handler: every other key is dropped by the final column selection.
\<close>

theorem feature_matrix_depends_on_nine_fields:
  assumes "\<forall>k\<in>set required_feature_columns. map_of d1 k = map_of d2 k"
  shows "transform_agricultural_input pkg d1 = transform_agricultural_input pkg d2 \<and>
         (d1 \<noteq> [] \<and> d2 \<noteq> [] \<longrightarrow> fst (post pkg (Some d1)) = fst (post pkg (Some d2)))"
proof -
  have t: "transform_agricultural_input pkg d1 = transform_agricultural_input pkg d2"
    by (rule transform_agree [OF assms])
  have m: "filter (\<lambda>field. map_of d1 field = None) required_fields =
           filter (\<lambda>field. map_of d2 field = None) required_fields"
    by (rule missing_fields_agree [OF assms])
  have "fst (post pkg (Some d1)) = fst (post pkg (Some d2))" if "d1 \<noteq> []" "d2 \<noteq> []"
    using that t m by (simp add: post_def Let_def split: prod.splits sum.splits)
  with t show ?thesis by simp
qed

theorem feature_matrix_depends_on_nine_fields_witness:
  "map_of example_request ''Farm_Id'' = None \<and>
   map_of example_request_with_extras ''Farm_Id'' = Some (JInt 17) \<and>
   transform_agricultural_input example_package example_request_with_extras =
   transform_agricultural_input example_package example_request \<and>
   fst (post example_package (Some example_request_with_extras)) =
   fst (post example_package (Some example_request))"
  using feature_matrix_depends_on_nine_fields
          [of example_request example_request_with_extras example_package]
  by (simp add: required_feature_columns_def example_request_def example_request_with_extras_def)

subsection \<open>The assembled feature matrix\<close>

text \<open>
  C7. Whenever \<open>transform_agricultural_input\<close> returns a feature matrix, the matrix has
  exactly the nine columns Region, Soil_Type, Crop, Rainfall_mm, Temperature_Celsius,
  Fertilizer_Used, Irrigation_Used, Weather_Condition, Days_to_Harvest, in this order, and
  Rainfall_mm, Temperature_Celsius and Days_to_Harvest hold the values of the input. The
  pipeline checks no range: with any other three values in these fields the same request
  is transformed again, after the same encoder calls, and the new values appear in the
  matrix.
\<close>

theorem feature_matrix_columns:
  assumes "transform_agricultural_input pkg d = (Inr m, t)"
  shows "map fst m = [''Region'', ''Soil_Type'', ''Crop'', ''Rainfall_mm'', ''Temperature_Celsius'',
                      ''Fertilizer_Used'', ''Irrigation_Used'', ''Weather_Condition'',
                      ''Days_to_Harvest''] \<and>
         map_of m ''Rainfall_mm'' = map_of d ''Rainfall_mm'' \<and>
         map_of m ''Temperature_Celsius'' = map_of d ''Temperature_Celsius'' \<and>
         map_of m ''Days_to_Harvest'' = map_of d ''Days_to_Harvest'' \<and>
         (\<forall>x y z. \<exists>m'.
            transform_agricultural_input pkg
              (AList.update ''Rainfall_mm'' x
                (AList.update ''Temperature_Celsius'' y
                  (AList.update ''Days_to_Harvest'' z d))) = (Inr m', t) \<and>
            map fst m' = map fst m \<and>
            map_of m' ''Rainfall_mm'' = Some x \<and>
            map_of m' ''Temperature_Celsius'' = Some y \<and>
            map_of m' ''Days_to_Harvest'' = Some z)"
proof -
  from assms obtain df3 where "select_columns required_feature_columns df3 = Inr m"
    unfolding transform_Inr_iff by blast
  then have cols: "map fst m = required_feature_columns"
    using select_columns_Inr by blast
  have num: "map_of m ''Rainfall_mm'' = map_of d ''Rainfall_mm''"
    "map_of m ''Temperature_Celsius'' = map_of d ''Temperature_Celsius''"
    "map_of m ''Days_to_Harvest'' = map_of d ''Days_to_Harvest''"
    by (rule transform_numeric_unchanged [OF assms], simp)+
  have free: "\<exists>m'. transform_agricultural_input pkg
              (AList.update ''Rainfall_mm'' x
                (AList.update ''Temperature_Celsius'' y
                  (AList.update ''Days_to_Harvest'' z d))) = (Inr m', t) \<and>
            map fst m' = map fst m \<and>
            map_of m' ''Rainfall_mm'' = Some x \<and>
            map_of m' ''Temperature_Celsius'' = Some y \<and>
            map_of m' ''Days_to_Harvest'' = Some z" for x y z
  proof -
    let ?d' = "AList.update ''Rainfall_mm'' x
                (AList.update ''Temperature_Celsius'' y
                  (AList.update ''Days_to_Harvest'' z d))"
    from transform_numeric_free [OF assms, of ?d' x y z]
    obtain m' where m': "transform_agricultural_input pkg ?d' = (Inr m', t)"
      "map_of m' ''Rainfall_mm'' = Some x" "map_of m' ''Temperature_Celsius'' = Some y"
      "map_of m' ''Days_to_Harvest'' = Some z"
      by (auto simp add: map_of_update)
    from m'(1) obtain df3' where "select_columns required_feature_columns df3' = Inr m'"
      unfolding transform_Inr_iff by blast
    then have "map fst m' = required_feature_columns"
      using select_columns_Inr by blast
    with m' cols show ?thesis by auto
  qed
  from cols num free show ?thesis
    by (simp add: required_feature_columns_def)
qed

theorem feature_matrix_columns_witness:
  "\<exists>m'. transform_agricultural_input example_package
          (AList.update ''Rainfall_mm'' (JFloat (-5000))
            (AList.update ''Temperature_Celsius'' (JFloat 1000)
              (AList.update ''Days_to_Harvest'' (JInt 0) example_request))) =
          (Inr m', [EncoderLookup ''Region'' ''North'', EncoderLookup ''Soil_Type'' ''Loam'',
                    EncoderLookup ''Crop'' ''Wheat'', EncoderLookup ''Weather_Condition'' ''Sunny'']) \<and>
        map_of m' ''Rainfall_mm'' = Some (JFloat (-5000)) \<and>
        map_of m' ''Temperature_Celsius'' = Some (JFloat 1000) \<and>
        map_of m' ''Days_to_Harvest'' = Some (JInt 0)"
  using feature_matrix_columns [OF example_transform] by blast

subsection \<open>Exceptions of the predictor\<close>

text \<open>
  C1 (as amended). For every request that reaches the predictor, an exception raised by
  the score operation is classified by its type: a \<open>ValueError\<close> is reported as
  \<open>VALIDATION_ERROR\<close> with HTTP 422, every other exception as \<open>PROCESSING_ERROR\<close> with
  HTTP 500; in both cases the message is the exception's text after the handler's prefix.
\<close>

theorem predict_exception_classified_by_type:
  assumes "transform_agricultural_input pkg d = (Inr m, t)"
    and "model_predict pkg m = Inl (Exc cls msg)"
  shows "post pkg (Some d) =
           (if cls = ValueError then validation_error_response msg
            else processing_error_response msg,
            TransformCall d # t @ [PredictCall m])"
  using post_reaches_predictor [OF assms(1)] assms(2)
  by (simp add: handle_exception_def)

theorem predict_exception_classified_by_type_witness:
  "post (raising_package TypeError ''unsupported operand'') (Some example_request) =
     (processing_error_response ''unsupported operand'',
      [TransformCall example_request,
       EncoderLookup ''Region'' ''North'', EncoderLookup ''Soil_Type'' ''Loam'',
       EncoderLookup ''Crop'' ''Wheat'', EncoderLookup ''Weather_Condition'' ''Sunny'',
       PredictCall [(''Region'', JInt 1), (''Soil_Type'', JInt 1), (''Crop'', JInt 2),
           (''Rainfall_mm'', JFloat 450.5), (''Temperature_Celsius'', JFloat 22.5),
           (''Fertilizer_Used'', JInt 1), (''Irrigation_Used'', JInt 0),
           (''Weather_Condition'', JInt 2), (''Days_to_Harvest'', JInt 120)]])"
  using predict_exception_classified_by_type
          [OF raising_package_transform raising_package_predict,
           of TypeError "''unsupported operand''"]
  by simp

text \<open>
  The claim as stated fails for a \<open>ValueError\<close>: the request reaches the predictor, the
  predictor raises \<open>ValueError\<close>, and the handler's first \<open>except\<close> clause reports
  \<open>VALIDATION_ERROR\<close> with status 422.
\<close>

theorem predict_value_error_reported_as_validation:
  "post (raising_package ValueError ''Input contains NaN'') (Some example_request) =
     ((Failure \<lparr>error_message = ''Input validation failed: Input contains NaN'',
                error_code = ''VALIDATION_ERROR'',
                suggestions = [''Check that categorical values are supported by the model'',
                               ''Ensure boolean fields use TRUE/FALSE values'',
                               ''Verify numerical ranges are realistic'']\<rparr>, 422),
      [TransformCall example_request,
       EncoderLookup ''Region'' ''North'', EncoderLookup ''Soil_Type'' ''Loam'',
       EncoderLookup ''Crop'' ''Wheat'', EncoderLookup ''Weather_Condition'' ''Sunny'',
       PredictCall [(''Region'', JInt 1), (''Soil_Type'', JInt 1), (''Crop'', JInt 2),
           (''Rainfall_mm'', JFloat 450.5), (''Temperature_Celsius'', JFloat 22.5),
           (''Fertilizer_Used'', JInt 1), (''Irrigation_Used'', JInt 0),
           (''Weather_Condition'', JInt 2), (''Days_to_Harvest'', JInt 120)]])"
  using post_reaches_predictor [OF raising_package_transform, of ValueError "''Input contains NaN''"]
  by (simp add: raising_package_predict handle_exception_def validation_error_response_def)

subsection \<open>Missing fields\<close>




subsection \<open>Unknown categorical values\<close>




subsection \<open>Unmapped boolean fields\<close>




subsection \<open>Boolean-like fields\<close>



subsection \<open>Categorical fields\<close>




end
